theory Spec2Isabelle
  imports Complex_Main "HOL-Library.Sublist" "HOL-Library.Char_ord" "HOL-Library.List_Lexorder"
begin

section \<open>Data model\<close>

text \<open>
  A pandas \<^verbatim>\<open>DataFrame\<close> has a row index and an ordered list of named columns. Rows are
  identified by their position, which is the default \<^verbatim>\<open>RangeIndex\<close> that
  \<^verbatim>\<open>pd.read_csv\<close> and \<^verbatim>\<open>pd.DataFrame(ndarray)\<close> produce, so the index is given by its
  length; a frame keeps its index when it has no column. A column is a name and a list
  of cells, one per row, where \<open>None\<close> is a missing value (NaN). Column names may repeat,
  as pandas allows.
\<close>

type_synonym 'a column = "string \<times> 'a option list"

record 'a table =
  index_len :: nat
  col_list :: "'a column list"

definition columns :: "'a table \<Rightarrow> string list" where
  "columns df = map fst (col_list df)"

text \<open>\<^verbatim>\<open>pd.DataFrame()\<close>: no row and no column.\<close>

definition empty_frame :: "'a table" where
  "empty_frame = \<lparr>index_len = 0, col_list = []\<rparr>"

text \<open>
  Python values that can be passed as the \<^verbatim>\<open>strategy\<close> argument. Only a \<^verbatim>\<open>list\<close>
  passes \<^verbatim>\<open>isinstance(strategy, list)\<close>; a string, a tuple or \<^verbatim>\<open>None\<close> does not.
\<close>

datatype pyval = PyStr string | PyInt int | PyNone | PyList "pyval list" | PyTuple "pyval list"

text \<open>
  Every \<^verbatim>\<open>raise\<close> of the module is a \<^verbatim>\<open>ValueError\<close>; the constructors below tell the
  raise sites apart and carry the value that the message is formatted with.
  \<^item> \<open>InvalidStrategy_unsupported conf\<close>: "\<^verbatim>\<open>{conf} is not a supported type of confounds.\<close>"
  \<^item> \<open>InvalidStrategy_not_list\<close>: "\<^verbatim>\<open>strategy needs to be a list of strings\<close>"
  \<^item> \<open>MissingColumn par\<close>: "\<^verbatim>\<open>The parameter {par} cannot be found in the available confounds...\<close>"
  \<^item> \<open>NoMatchingColumn key\<close>: "\<^verbatim>\<open>could not find any confound with the key {key}\<close>"

  The remaining constructors are the exceptions that the interpreter and the libraries
  raise: reading a local variable that was never assigned, indexing a list out of
  range, selecting a column that does not exist, and a failure inside an external call
  (\<^verbatim>\<open>pd.read_csv\<close>, \<^verbatim>\<open>StandardScaler\<close>, \<^verbatim>\<open>PCA\<close>).
\<close>

datatype error =
    InvalidStrategy_unsupported pyval
  | InvalidStrategy_not_list
  | MissingColumn string
  | NoMatchingColumn string
  | UnboundLocalError string
  | IndexError
  | KeyError
  | ExternalError string

text \<open>\<^verbatim>\<open>warnings.warn(f"could not find any confound with the key {compcor_col}")\<close>\<close>

datatype warning = MissingComponent string

text \<open>Global variable listing the admissible types of noise components.\<close>

definition all_confounds :: "string list" where
  "all_confounds = [''motion'', ''high_pass'', ''wm_csf'', ''global'', ''compcor'']"

section \<open>Naming expander\<close>

text \<open>
  \<^verbatim>\<open>_add_suffix(params, model)\<close> copies \<^verbatim>\<open>params\<close> into \<^verbatim>\<open>params_full\<close> and then walks
  over \<^verbatim>\<open>params\<close>, appending to \<^verbatim>\<open>params_full\<close> inside the loop body. The three
  \<^verbatim>\<open>if\<close> statements of the body are independent and run in this order for every
  parameter. The loop is the recursion \<open>add_suffix_loop\<close>, whose last argument is the
  list \<^verbatim>\<open>params_full\<close> built so far.
\<close>

definition add_suffix_body :: "string \<Rightarrow> string \<Rightarrow> string list \<Rightarrow> string list" where
  "add_suffix_body model par params_full =
     (let p1 = (if model = ''derivatives'' \<or> model = ''full''
                then params_full @ [par @ ''_derivative1''] else params_full);
          p2 = (if model = ''power2'' \<or> model = ''full''
                then p1 @ [par @ ''_power2''] else p1);
          p3 = (if model = ''full''
                then p2 @ [par @ ''_derivative1_power2''] else p2)
      in p3)"

fun add_suffix_loop :: "string \<Rightarrow> string list \<Rightarrow> string list \<Rightarrow> string list" where
  "add_suffix_loop model [] params_full = params_full"
| "add_suffix_loop model (par # rest) params_full =
     add_suffix_loop model rest (add_suffix_body model par params_full)"

definition add_suffix :: "string list \<Rightarrow> string \<Rightarrow> string list" where
  "add_suffix params model = add_suffix_loop model params params"

section \<open>Column validator\<close>

text \<open>
  \<^verbatim>\<open>_check_params\<close> walks over \<^verbatim>\<open>params\<close> and raises at the first one that is not in
  \<^verbatim>\<open>confounds_raw.columns\<close>; it returns \<^verbatim>\<open>None\<close> otherwise. It only reads the table.
\<close>

fun check_params :: "'a table \<Rightarrow> string list \<Rightarrow> error + unit" where
  "check_params confounds_raw [] = Inr ()"
| "check_params confounds_raw (par # rest) =
     (if par \<notin> set (columns confounds_raw) then Inl (MissingColumn par)
      else check_params confounds_raw rest)"

section \<open>Keyword finder\<close>

text \<open>
  \<^verbatim>\<open>key in col\<close> on two Python strings is the test for a contiguous substring, which is
  \<^const>\<open>sublist\<close> on character lists. The inner loop of \<^verbatim>\<open>_find_confounds\<close> runs over
  the columns with the state \<^verbatim>\<open>(list_confounds, key_found)\<close>; the outer loop runs over
  the keywords and raises after the inner loop when \<^verbatim>\<open>key_found\<close> is still false.
\<close>

fun find_confounds_cols ::
  "string \<Rightarrow> string list \<Rightarrow> string list \<times> bool \<Rightarrow> string list \<times> bool" where
  "find_confounds_cols key [] (list_confounds, key_found) = (list_confounds, key_found)"
| "find_confounds_cols key (col # cols) (list_confounds, key_found) =
     (if sublist key col then find_confounds_cols key cols (list_confounds @ [col], True)
      else find_confounds_cols key cols (list_confounds, key_found))"

fun find_confounds_keys :: "'a table \<Rightarrow> string list \<Rightarrow> string list \<Rightarrow> error + string list" where
  "find_confounds_keys confounds_raw [] list_confounds = Inr list_confounds"
| "find_confounds_keys confounds_raw (key # keys) list_confounds =
     (case find_confounds_cols key (columns confounds_raw) (list_confounds, False) of
        (list_confounds', key_found) \<Rightarrow>
          if \<not> key_found then Inl (NoMatchingColumn key)
          else find_confounds_keys confounds_raw keys list_confounds')"

definition find_confounds :: "'a table \<Rightarrow> string list \<Rightarrow> error + string list" where
  "find_confounds confounds_raw keywords = find_confounds_keys confounds_raw keywords []"

section \<open>Indexed component selector\<close>

text \<open>
  \<^verbatim>\<open>str(nn)\<close> for a non-negative integer is its decimal numeral; \<^verbatim>\<open>s.zfill(2)\<close> pads a
  string without a sign on the left with \<^verbatim>\<open>0\<close> up to width 2 and leaves a longer string
  as it is. \<^verbatim>\<open>range(n)\<close> is empty for \<^verbatim>\<open>n \<le> 0\<close>.
\<close>

definition digit_char :: "nat \<Rightarrow> char" where
  "digit_char d = ''0123456789'' ! (d mod 10)"

fun str_nat :: "nat \<Rightarrow> string" where
  "str_nat n = (if n < 10 then [digit_char n] else str_nat (n div 10) @ [digit_char (n mod 10)])"

declare str_nat.simps [simp del]

definition zfill :: "nat \<Rightarrow> string \<Rightarrow> string" where
  "zfill width s = replicate (width - length s) (CHR ''0'') @ s"

definition py_range :: "int \<Rightarrow> nat list" where
  "py_range n = [0 ..< nat n]"

text \<open>
  The loop of \<^verbatim>\<open>_label_compcor\<close>, with the list \<^verbatim>\<open>compcor_cols\<close> and the warnings
  emitted so far as its state.
\<close>

definition compcor_name :: "string \<Rightarrow> nat \<Rightarrow> string" where
  "compcor_name compcor_suffix nn = compcor_suffix @ ''_comp_cor_'' @ zfill 2 (str_nat nn)"

fun label_compcor_loop ::
  "'a table \<Rightarrow> string \<Rightarrow> nat list \<Rightarrow> string list \<times> warning list \<Rightarrow> string list \<times> warning list" where
  "label_compcor_loop confounds_raw compcor_suffix [] (compcor_cols, warns) = (compcor_cols, warns)"
| "label_compcor_loop confounds_raw compcor_suffix (nn # rest) (compcor_cols, warns) =
     (let compcor_col = compcor_name compcor_suffix nn in
      if compcor_col \<notin> set (columns confounds_raw)
      then label_compcor_loop confounds_raw compcor_suffix rest
             (compcor_cols, warns @ [MissingComponent compcor_col])
      else label_compcor_loop confounds_raw compcor_suffix rest
             (compcor_cols @ [compcor_col], warns))"

definition label_compcor :: "'a table \<Rightarrow> string \<Rightarrow> int \<Rightarrow> string list \<times> warning list" where
  "label_compcor confounds_raw compcor_suffix n_compcor =
     label_compcor_loop confounds_raw compcor_suffix (py_range (n_compcor + 1)) ([], [])"

section \<open>Category loaders\<close>

text \<open>
  Sequencing of fallible steps: an exception raised by a step aborts everything after it.
\<close>

definition bind_err :: "error + 'a \<Rightarrow> ('a \<Rightarrow> error + 'b) \<Rightarrow> error + 'b" where
  "bind_err r f = (case r of Inl e \<Rightarrow> Inl e | Inr x \<Rightarrow> f x)"

text \<open>
  \<^verbatim>\<open>confounds_raw[names]\<close> with a list of names selects, for each name in turn, every
  column carrying that name, and raises \<^verbatim>\<open>KeyError\<close> when a name is not a column. The
  result keeps the row index, also when no column is selected.
\<close>

definition getitem :: "'a table \<Rightarrow> string list \<Rightarrow> error + 'a table" where
  "getitem df names =
     (if list_ex (\<lambda>n. n \<notin> set (columns df)) names then Inl KeyError
      else Inr \<lparr>index_len = index_len df,
                col_list = concat (map (\<lambda>n. filter (\<lambda>c. fst c = n) (col_list df)) names)\<rparr>)"

definition load_global :: "'a table \<Rightarrow> string \<Rightarrow> error + 'a table" where
  "load_global confounds_raw global_signal =
     (let global_params = add_suffix [''global_signal''] global_signal in
      bind_err (check_params confounds_raw global_params)
        (\<lambda>_. getitem confounds_raw global_params))"

definition load_wm_csf :: "'a table \<Rightarrow> string \<Rightarrow> error + 'a table" where
  "load_wm_csf confounds_raw wm_csf =
     (let wm_csf_params = add_suffix [''csf'', ''white_matter''] wm_csf in
      bind_err (check_params confounds_raw wm_csf_params)
        (\<lambda>_. getitem confounds_raw wm_csf_params))"

definition load_high_pass :: "'a table \<Rightarrow> error + 'a table" where
  "load_high_pass confounds_raw =
     bind_err (find_confounds confounds_raw [''cosine''])
       (\<lambda>high_pass_params. getitem confounds_raw high_pass_params)"

text \<open>
  In \<^verbatim>\<open>_load_compcor\<close> the local variable \<^verbatim>\<open>compcor_cols\<close> is assigned only inside the
  three \<^verbatim>\<open>if\<close> statements; it is \<open>None\<close> here while it is unbound, and reading it then
  (\<^verbatim>\<open>compcor_cols.sort()\<close>) raises \<^verbatim>\<open>UnboundLocalError\<close>. The warnings of the selector
  calls are collected in call order and are emitted whether or not a later step raises.
  \<^verbatim>\<open>list.sort()\<close> on strings is the lexicographic order on the characters' codes.
\<close>

definition load_compcor :: "'a table \<Rightarrow> string \<Rightarrow> int \<Rightarrow> warning list \<times> (error + 'a table)" where
  "load_compcor confounds_raw compcor n_compcor =
     (let (cols1, w1) =
            (if compcor = ''anat''
             then (case label_compcor confounds_raw ''a'' n_compcor of (c, w) \<Rightarrow> (Some c, w))
             else (None, []));
          (cols2, w2) =
            (if compcor = ''temp''
             then (case label_compcor confounds_raw ''t'' n_compcor of (c, w) \<Rightarrow> (Some c, w1 @ w))
             else (cols1, w1));
          (cols3, w3) =
            (if compcor = ''full''
             then (case label_compcor confounds_raw ''a'' n_compcor of (ca, wa) \<Rightarrow>
                   case label_compcor confounds_raw ''t'' n_compcor of (ct, wt) \<Rightarrow>
                     (Some (ca @ ct), w2 @ wa @ wt))
             else (cols2, w2))
      in case cols3 of
           None \<Rightarrow> (w3, Inl (UnboundLocalError ''compcor_cols''))
         | Some compcor_cols \<Rightarrow>
             (let compcor_cols = sort compcor_cols in
              (w3, bind_err (check_params confounds_raw compcor_cols)
                     (\<lambda>_. getitem confounds_raw compcor_cols))))"


section \<open>Motion reducer\<close>

text \<open>
  A numeric array of shape \<^verbatim>\<open>(n_samples, n_features)\<close>: its number of rows and the list
  of its feature columns.
\<close>

record 'a ndarray =
  n_samples :: nat
  features :: "'a option list list"

text \<open>
  The calls into pandas' reader and into scikit-learn are parameters of the model.
  \<^verbatim>\<open>n_components\<close> is a Python number (the docstring allows a fraction between 0 and
  1), hence a real.
\<close>

record 'a externals =
  read_csv :: "string \<Rightarrow> error + 'a table"
  scaler_fit_transform :: "'a ndarray \<Rightarrow> error + 'a ndarray"
  pca_fit_transform :: "real \<Rightarrow> 'a ndarray \<Rightarrow> error + 'a ndarray"

text \<open>
  \<^verbatim>\<open>DataFrame.dropna()\<close> keeps the rows in which no cell is missing. The rows kept are
  later renumbered, when \<^verbatim>\<open>pd.DataFrame\<close> builds a frame from the array of the PCA.
\<close>

definition dropna :: "'a table \<Rightarrow> 'a table" where
  "dropna df =
     (let keep = filter (\<lambda>i. list_all (\<lambda>c. i < length (snd c) \<and> snd c ! i \<noteq> None) (col_list df))
                   [0 ..< index_len df]
      in \<lparr>index_len = length keep,
          col_list = map (\<lambda>c. (fst c, map (\<lambda>i. snd c ! i) keep)) (col_list df)\<rparr>)"

text \<open>The array of a frame's values, as \<^verbatim>\<open>fit_transform\<close> takes it from a frame.\<close>

definition to_array :: "'a table \<Rightarrow> 'a ndarray" where
  "to_array df = \<lparr>n_samples = index_len df, features = map snd (col_list df)\<rparr>"

text \<open>
  \<^verbatim>\<open>pd.DataFrame(array)\<close> has the rows of the array and names the columns
  \<^verbatim>\<open>0, 1, ...\<close>; the list comprehension of \<^verbatim>\<open>_pca_motion\<close> renames column \<^verbatim>\<open>col\<close> to
  \<^verbatim>\<open>"motion_pca_" + str(col + 1)\<close>.
\<close>

definition pca_motion :: "'a externals \<Rightarrow> 'a table \<Rightarrow> real \<Rightarrow> error + 'a table" where
  "pca_motion env confounds_motion n_components =
     (let confounds_motion = dropna confounds_motion in
      bind_err (scaler_fit_transform env (to_array confounds_motion))
        (\<lambda>confounds_motion_std.
           bind_err (pca_fit_transform env n_components confounds_motion_std)
             (\<lambda>transformed.
                let motion_pca = enumerate 0 (features transformed)
                in Inr \<lparr>index_len = n_samples transformed,
                         col_list = map (\<lambda>(col, cells). (''motion_pca_'' @ str_nat (col + 1), cells))
                                  motion_pca\<rparr>)))"

definition load_motion :: "'a externals \<Rightarrow> 'a table \<Rightarrow> string \<Rightarrow> real \<Rightarrow> error + 'a table" where
  "load_motion env confounds_raw motion n_motion =
     (let motion_params =
            add_suffix [''trans_x'', ''trans_y'', ''trans_z'', ''rot_x'', ''rot_y'', ''rot_z''] motion
      in bind_err (check_params confounds_raw motion_params)
           (\<lambda>_. bind_err (getitem confounds_raw motion_params)
              (\<lambda>confounds_motion.
                 if n_motion > 0 then pca_motion env confounds_motion n_motion
                 else Inr confounds_motion)))"

section \<open>Strategy orchestrator\<close>

definition in_all_confounds :: "pyval \<Rightarrow> bool" where
  "in_all_confounds conf = (conf \<in> set (map PyStr all_confounds))"

fun sanitize_strategy_loop :: "pyval list \<Rightarrow> error + unit" where
  "sanitize_strategy_loop [] = Inr ()"
| "sanitize_strategy_loop (conf # rest) =
     (if \<not> in_all_confounds conf then Inl (InvalidStrategy_unsupported conf)
      else sanitize_strategy_loop rest)"

fun sanitize_strategy :: "pyval \<Rightarrow> error + pyval list" where
  "sanitize_strategy (PyList strategy) =
     bind_err (sanitize_strategy_loop strategy) (\<lambda>_. Inr strategy)"
| "sanitize_strategy _ = Inl InvalidStrategy_not_list"

text \<open>
  An input of \<^verbatim>\<open>load\<close> is a \<^verbatim>\<open>DataFrame\<close> or a path (a \<^verbatim>\<open>str\<close>), or a list of these.
\<close>

datatype 'a raw = DataFrame "'a table" | Path string

datatype 'a load_arg = Single "'a raw" | Many "'a raw list"

datatype 'a load_out = OneTable "'a table" | TableList "'a table list"

text \<open>
  \<^verbatim>\<open>s.split(sep)[1]\<close>: the text between the first and the second occurrence of
  \<^verbatim>\<open>sep\<close> (up to the end when there is no second one); \<^verbatim>\<open>IndexError\<close>, here \<open>None\<close>,
  when \<^verbatim>\<open>sep\<close> does not occur. \<open>partition_at\<close> cuts a string at the first occurrence
  of a non-empty \<^verbatim>\<open>sep\<close> (the only separator of the module is \<^verbatim>\<open>"space-"\<close>).
\<close>

fun partition_at :: "string \<Rightarrow> string \<Rightarrow> (string \<times> string) option" where
  "partition_at sep [] = (if sep = [] then Some ([], []) else None)"
| "partition_at sep (c # cs) =
     (if prefix sep (c # cs) then Some ([], drop (length sep) (c # cs))
      else map_option (\<lambda>(before, rest). (c # before, rest)) (partition_at sep cs))"

definition split_item1 :: "string \<Rightarrow> string \<Rightarrow> string option" where
  "split_item1 sep s =
     (case partition_at sep s of
        None \<Rightarrow> None
      | Some (_, rest) \<Rightarrow>
          (case partition_at sep rest of None \<Rightarrow> Some rest | Some (piece, _) \<Rightarrow> Some piece))"

text \<open>
  \<^verbatim>\<open>s.replace(old, new)\<close> for a non-empty \<^verbatim>\<open>old\<close>: every occurrence, left to right,
  without overlaps.
\<close>

function str_replace :: "string \<Rightarrow> string \<Rightarrow> string \<Rightarrow> string" where
  "str_replace old new [] = []"
| "str_replace old new (c # cs) =
     (if old \<noteq> [] \<and> prefix old (c # cs)
      then new @ str_replace old new (drop (length old) (c # cs))
      else c # str_replace old new cs)"
  by pat_completeness auto
termination
  by (relation "measure (\<lambda>(old, new, s). length s)") auto

definition confounds2df :: "'a externals \<Rightarrow> 'a raw \<Rightarrow> error + 'a table" where
  "confounds2df env confounds_raw =
     (case confounds_raw of
        DataFrame df \<Rightarrow> Inr df
      | Path p \<Rightarrow>
          (if sublist ''nii'' (drop (length p - 6) p)
           then (case split_item1 ''space-'' p of
                   None \<Rightarrow> Inl IndexError
                 | Some piece \<Rightarrow>
                     read_csv env
                       (str_replace (''_space-'' @ piece) ''_desc-confounds_regressors.tsv'' p))
           else read_csv env p))"

definition sanitize_confounds :: "'a load_arg \<Rightarrow> 'a raw list \<times> bool" where
  "sanitize_confounds confounds_raw =
     (case confounds_raw of Single x \<Rightarrow> ([x], True) | Many xs \<Rightarrow> (xs, False))"

text \<open>
  The object: the attributes set by \<^verbatim>\<open>__init__\<close>, and \<^verbatim>\<open>confounds_\<close>, which does not
  exist (\<open>None\<close>) until \<^verbatim>\<open>load\<close> has returned once.
\<close>

record 'a confounds =
  strategy :: "pyval list"
  motion :: string
  n_motion :: real
  wm_csf :: string
  global_signal :: string
  compcor :: string
  n_compcor :: int
  confounds_ :: "'a load_out option"

definition init ::
  "pyval \<Rightarrow> string \<Rightarrow> real \<Rightarrow> string \<Rightarrow> string \<Rightarrow> string \<Rightarrow> int \<Rightarrow> error + 'a confounds" where
  "init strategy' motion' n_motion' wm_csf' global_signal' compcor' n_compcor' =
     bind_err (sanitize_strategy strategy')
       (\<lambda>s. Inr \<lparr>strategy = s, motion = motion', n_motion = n_motion', wm_csf = wm_csf',
                global_signal = global_signal', compcor = compcor',
                n_compcor = n_compcor', confounds_ = None\<rparr>)"

text \<open>
  \<^verbatim>\<open>pd.concat([confounds, part], axis=1)\<close> puts the columns of \<^verbatim>\<open>part\<close> after those of
  \<^verbatim>\<open>confounds\<close>; rows are aligned on the union of the two positional indexes, which is
  the longer one, so the columns of the shorter frame are filled with missing values.
\<close>

definition pad_column :: "nat \<Rightarrow> 'a column \<Rightarrow> 'a column" where
  "pad_column n c = (fst c, snd c @ replicate (n - length (snd c)) None)"

definition concat_axis1 :: "'a table \<Rightarrow> 'a table \<Rightarrow> 'a table" where
  "concat_axis1 a b =
     (let n = max (index_len a) (index_len b)
      in \<lparr>index_len = n, col_list = map (pad_column n) (col_list a) @ map (pad_column n) (col_list b)\<rparr>)"

text \<open>
  One \<^verbatim>\<open>if "<category>" in self.strategy:\<close> block of \<^verbatim>\<open>_load_single\<close>: when the category
  is active its loader runs and its result is concatenated to the running table.
\<close>

definition category_step :: "bool \<Rightarrow> error + 'a table \<Rightarrow> 'a table \<Rightarrow> error + 'a table" where
  "category_step active loaded confounds' =
     (if active then bind_err loaded (\<lambda>part. Inr (concat_axis1 confounds' part))
      else Inr confounds')"

definition active :: "'a confounds \<Rightarrow> string \<Rightarrow> bool" where
  "active self category = (PyStr category \<in> set (strategy self))"

text \<open>
  \<^verbatim>\<open>_load_single\<close>, in two parts: the blocks for \<^verbatim>\<open>motion\<close>, \<^verbatim>\<open>high_pass\<close>,
  \<^verbatim>\<open>wm_csf\<close> and \<^verbatim>\<open>global\<close>, which emit no warning, starting from the empty
  \<^verbatim>\<open>pd.DataFrame()\<close>; then the conversion of the input and the block for \<^verbatim>\<open>compcor\<close>.
\<close>

definition load_single_before_compcor ::
  "'a externals \<Rightarrow> 'a confounds \<Rightarrow> 'a table \<Rightarrow> error + 'a table" where
  "load_single_before_compcor env self confounds_raw =
     bind_err
       (category_step (active self ''motion'')
          (load_motion env confounds_raw (motion self) (n_motion self)) empty_frame)
       (\<lambda>confounds'.
          bind_err
            (category_step (active self ''high_pass'')
               (load_high_pass confounds_raw) confounds')
            (\<lambda>confounds'.
               bind_err
                 (category_step (active self ''wm_csf'')
                    (load_wm_csf confounds_raw (wm_csf self)) confounds')
                 (\<lambda>confounds'.
                    category_step (active self ''global'')
                      (load_global confounds_raw (global_signal self)) confounds')))"

definition load_single ::
  "'a externals \<Rightarrow> 'a confounds \<Rightarrow> 'a raw \<Rightarrow> warning list \<times> (error + 'a table)" where
  "load_single env self confounds_raw =
     (case confounds2df env confounds_raw of
        Inl e \<Rightarrow> ([], Inl e)
      | Inr confounds_raw \<Rightarrow>
          (case load_single_before_compcor env self confounds_raw of
             Inl e \<Rightarrow> ([], Inl e)
           | Inr confounds' \<Rightarrow>
               (if active self ''compcor''
                then (case load_compcor confounds_raw (compcor self) (n_compcor self) of
                        (w, loaded) \<Rightarrow> (w, category_step True loaded confounds'))
                else ([], Inr confounds'))))"

text \<open>
  The loop of \<^verbatim>\<open>load\<close> over the inputs, with \<^verbatim>\<open>confounds_out\<close> and the warnings emitted
  so far as its state. \<^verbatim>\<open>confounds_out[0]\<close> raises \<^verbatim>\<open>IndexError\<close> on an empty list.
  \<^verbatim>\<open>self.confounds_\<close> is assigned only when nothing was raised before.
\<close>

fun load_loop ::
  "'a externals \<Rightarrow> 'a confounds \<Rightarrow> 'a raw list \<Rightarrow> 'a table list \<times> warning list \<Rightarrow>
   warning list \<times> (error + 'a table list)" where
  "load_loop env self [] (confounds_out, warns) = (warns, Inr confounds_out)"
| "load_loop env self (file # files) (confounds_out, warns) =
     (case load_single env self file of
        (w, Inl e) \<Rightarrow> (warns @ w, Inl e)
      | (w, Inr out) \<Rightarrow> load_loop env self files (confounds_out @ [out], warns @ w))"

definition load ::
  "'a externals \<Rightarrow> 'a confounds \<Rightarrow> 'a load_arg \<Rightarrow>
   warning list \<times> (error + 'a load_out \<times> 'a confounds)" where
  "load env self confounds_raw =
     (case sanitize_confounds confounds_raw of
        (files, flag_single) \<Rightarrow>
          (case load_loop env self files ([], []) of
             (warns, Inl e) \<Rightarrow> (warns, Inl e)
           | (warns, Inr outs) \<Rightarrow>
               (warns,
                bind_err
                  (if flag_single
                   then (case outs of [] \<Rightarrow> Inl IndexError | out # _ \<Rightarrow> Inr (OneTable out))
                   else Inr (TableList outs))
                  (\<lambda>confounds_out.
                     Inr (confounds_out, self\<lparr>confounds_ := Some confounds_out\<rparr>)))))"

section \<open>The contract of the scikit-learn calls\<close>




section \<open>An environment for the examples\<close>

text \<open>
  Stand-ins for the external calls, used only to run the model on concrete inputs. No
  file can be read. The scaler rejects an array without rows, as scikit-learn does, and
  otherwise returns its input. The reduction rejects, as scikit-learn does, a count
  that is not positive, a count above \<^verbatim>\<open>min(n_samples, n_features)\<close> and a count above
  1 that is not an integer; otherwise it keeps the first \<^verbatim>\<open>n_components\<close> feature
  columns (one column for a fraction).
\<close>

definition example_externals :: "'a externals" where
  "example_externals =
     \<lparr>read_csv = (\<lambda>path. Inl (ExternalError ''read_csv'')),
      scaler_fit_transform =
        (\<lambda>X. if n_samples X = 0 then Inl (ExternalError ''StandardScaler'') else Inr X),
      pca_fit_transform =
        (\<lambda>n_components X.
           if n_components \<le> 0
              \<or> real (min (n_samples X) (length (features X))) < n_components
              \<or> (1 \<le> n_components \<and> n_components \<noteq> real_of_int \<lfloor>n_components\<rfloor>)
           then Inl (ExternalError ''PCA'')
           else Inr \<lparr>n_samples = n_samples X,
                     features =
                       take (if n_components < 1 then 1 else nat \<lfloor>n_components\<rfloor>)
                         (features X)\<rparr>)\<rparr>"

text \<open>
  The table of the specification's orchestrator test: the two cosine columns and the six
  motion columns among unrelated ones, two rows each.
\<close>

definition example_table :: "nat table" where
  "example_table =
     \<lparr>index_len = 2,
      col_list =
        [(''csf'', [Some 1, Some 2]), (''cosine00'', [Some 3, Some 4]),
         (''trans_x'', [Some 5, Some 6]), (''trans_y'', [Some 7, Some 8]),
         (''trans_z'', [Some 9, Some 10]), (''rot_x'', [Some 11, Some 12]),
         (''rot_y'', [Some 13, Some 14]), (''rot_z'', [Some 15, Some 16]),
         (''cosine01'', [Some 17, Some 18]), (''framewise_displacement'', [None, Some 19])]\<rparr>"

definition example_table2 :: "nat table" where
  "example_table2 =
     \<lparr>index_len = 1,
      col_list =
        [(''rot_z'', [Some 1]), (''rot_y'', [Some 2]), (''rot_x'', [Some 3]),
         (''trans_z'', [Some 4]), (''trans_y'', [Some 5]), (''trans_x'', [Some 6]),
         (''cosine00'', [Some 7])]\<rparr>"

definition example_config :: "nat confounds" where
  "example_config =
     \<lparr>strategy = [PyStr ''high_pass'', PyStr ''motion''], motion = ''basic'', n_motion = 0,
      wm_csf = ''basic'', global_signal = ''basic'', compcor = ''anat'', n_compcor = 6,
      confounds_ = None\<rparr>"

text \<open>
  A configuration that the constructor accepts although \<^verbatim>\<open>"bogus"\<close> is no compcor
  variant.
\<close>

definition example_config_bogus :: "nat confounds" where
  "example_config_bogus =
     \<lparr>strategy = [PyStr ''motion'', PyStr ''compcor''], motion = ''basic'', n_motion = 0,
      wm_csf = ''basic'', global_signal = ''basic'', compcor = ''bogus'', n_compcor = 6,
      confounds_ = None\<rparr>"

text \<open>
  What \<^verbatim>\<open>_load_single\<close> returns for \<open>example_table\<close> under \<open>example_config\<close>.
\<close>

definition example_result :: "nat table" where
  "example_result =
     \<lparr>index_len = 2,
      col_list =
        [(''trans_x'', [Some 5, Some 6]), (''trans_y'', [Some 7, Some 8]),
         (''trans_z'', [Some 9, Some 10]), (''rot_x'', [Some 11, Some 12]),
         (''rot_y'', [Some 13, Some 14]), (''rot_z'', [Some 15, Some 16]),
         (''cosine00'', [Some 3, Some 4]), (''cosine01'', [Some 17, Some 18])]\<rparr>"

text \<open>The six motion columns of \<open>example_table\<close>, as \<^verbatim>\<open>_load_motion\<close> selects them.\<close>

definition example_motion :: "nat table" where
  "example_motion =
     \<lparr>index_len = 2,
      col_list =
        [(''trans_x'', [Some 5, Some 6]), (''trans_y'', [Some 7, Some 8]),
         (''trans_z'', [Some 9, Some 10]), (''rot_x'', [Some 11, Some 12]),
         (''rot_y'', [Some 13, Some 14]), (''rot_z'', [Some 15, Some 16])]\<rparr>"

section \<open>The specification's wording, for comparison\<close>

text \<open>
  The expansion as section 4.1 of the specification words it: all bases, then all
  \<^verbatim>\<open>_derivative1\<close> names, then all \<^verbatim>\<open>_power2\<close> names, then all
  \<^verbatim>\<open>_derivative1_power2\<close> names.
\<close>

definition grouped_expansion :: "string list \<Rightarrow> string \<Rightarrow> string list" where
  "grouped_expansion B m =
     B @ (if m = ''derivatives'' \<or> m = ''full'' then map (\<lambda>b. b @ ''_derivative1'') B else [])
       @ (if m = ''power2'' \<or> m = ''full'' then map (\<lambda>b. b @ ''_power2'') B else [])
       @ (if m = ''full'' then map (\<lambda>b. b @ ''_derivative1_power2'') B else [])"

text \<open>
  The candidates of section 4.4: \<^verbatim>\<open><prefix>_comp_cor_<NN>\<close> for \<^verbatim>\<open>NN = 0..N\<close>.
\<close>

definition candidates :: "string \<Rightarrow> int \<Rightarrow> string list" where
  "candidates p N = map (compcor_name p) [0 ..< nat (N + 1)]"

section \<open>Properties of the naming expander\<close>

definition suffixes_of :: "string \<Rightarrow> string \<Rightarrow> string list" where
  "suffixes_of model par = add_suffix_body model par []"

lemma add_suffix_body_append:
  "add_suffix_body model par acc = acc @ suffixes_of model par"
  by (simp add: add_suffix_body_def suffixes_of_def)

lemma add_suffix_loop_concat:
  "add_suffix_loop model ps acc = acc @ concat (map (suffixes_of model) ps)"
proof (induction ps arbitrary: acc)
  case Nil
  show ?case by simp
next
  case (Cons p ps)
  show ?case by (simp add: Cons.IH add_suffix_body_append)
qed

lemma add_suffix_concat:
  "add_suffix B m = B @ concat (map (suffixes_of m) B)"
  by (simp add: add_suffix_def add_suffix_loop_concat)

lemma length_concat_const:
  "(\<And>x. x \<in> set xs \<Longrightarrow> length (f x) = k) \<Longrightarrow> length (concat (map f xs)) = k * length xs"
  by (induction xs) simp_all

lemma length_suffixes_of:
  "length (suffixes_of m p) =
     (if m = ''full'' then 3 else if m = ''derivatives'' \<or> m = ''power2'' then 1 else 0)"
  by (simp add: suffixes_of_def add_suffix_body_def)

text \<open>
  Claim C3. For every list of base names and every mode string the expander returns a
  list (it has no failing branch); the result starts with the base names unchanged and
  in order; its length is four times the number of bases for \<^verbatim>\<open>full\<close>, twice for
  \<^verbatim>\<open>derivatives\<close> and \<^verbatim>\<open>power2\<close>, and the number of bases for \<^verbatim>\<open>basic\<close> and
  for every other string.
\<close>

theorem add_suffix_prefix_and_length:
  "take (length B) (add_suffix B m) = B \<and>
   length (add_suffix B m) =
     (if m = ''full'' then 4 * length B
      else if m = ''derivatives'' \<or> m = ''power2'' then 2 * length B
      else length B)"
proof -
  have "length (concat (map (suffixes_of m) B)) =
          (if m = ''full'' then 3 else if m = ''derivatives'' \<or> m = ''power2'' then 1 else 0)
            * length B"
    by (rule length_concat_const) (rule length_suffixes_of)
  then show ?thesis
    by (simp add: add_suffix_concat)
qed

lemma concat_map_singleton: "concat (map (\<lambda>x. [f x]) xs) = map f xs"
  by (induction xs) simp_all

text \<open>
  Claim C2, as amended. With mode \<^verbatim>\<open>full\<close> the expander lists all base names first and
  then, for each base in turn, its \<^verbatim>\<open>_derivative1\<close>, \<^verbatim>\<open>_power2\<close> and
  \<^verbatim>\<open>_derivative1_power2\<close> names together (interleaved per base). With mode
  \<^verbatim>\<open>derivatives\<close> or \<^verbatim>\<open>power2\<close> the single extra suffix follows the bases, one name
  per base in base order, which is the grouping of the specification.
\<close>

theorem add_suffix_order:
  "add_suffix B ''full'' =
     B @ concat (map (\<lambda>b. [b @ ''_derivative1'', b @ ''_power2'', b @ ''_derivative1_power2'']) B) \<and>
   add_suffix B ''derivatives'' = B @ map (\<lambda>b. b @ ''_derivative1'') B \<and>
   add_suffix B ''power2'' = B @ map (\<lambda>b. b @ ''_power2'') B \<and>
   add_suffix B ''derivatives'' = grouped_expansion B ''derivatives'' \<and>
   add_suffix B ''power2'' = grouped_expansion B ''power2''"
proof -
  have f: "suffixes_of ''full'' =
             (\<lambda>b. [b @ ''_derivative1'', b @ ''_power2'', b @ ''_derivative1_power2''])"
    by (rule ext) (simp add: suffixes_of_def add_suffix_body_def)
  have d: "suffixes_of ''derivatives'' = (\<lambda>b. [b @ ''_derivative1''])"
    by (rule ext) (simp add: suffixes_of_def add_suffix_body_def)
  have p: "suffixes_of ''power2'' = (\<lambda>b. [b @ ''_power2''])"
    by (rule ext) (simp add: suffixes_of_def add_suffix_body_def)
  show ?thesis
    by (simp add: add_suffix_concat f d p grouped_expansion_def concat_map_singleton)
qed

text \<open>
  Claim C2 as stated fails for two bases and mode \<^verbatim>\<open>full\<close>: the code returns the
  suffixed names of \<^verbatim>\<open>a\<close> before those of \<^verbatim>\<open>b\<close>, the specification's order has the
  two \<^verbatim>\<open>_derivative1\<close> names first.
\<close>

theorem add_suffix_full_not_grouped:
  "add_suffix [''a'', ''b''] ''full'' =
     [''a'', ''b'', ''a_derivative1'', ''a_power2'', ''a_derivative1_power2'',
      ''b_derivative1'', ''b_power2'', ''b_derivative1_power2''] \<and>
   grouped_expansion [''a'', ''b''] ''full'' =
     [''a'', ''b'', ''a_derivative1'', ''b_derivative1'', ''a_power2'', ''b_power2'',
      ''a_derivative1_power2'', ''b_derivative1_power2''] \<and>
   add_suffix [''a'', ''b''] ''full'' \<noteq> grouped_expansion [''a'', ''b''] ''full''"
  by (simp add: add_suffix_def add_suffix_body_def grouped_expansion_def)

section \<open>Properties of the column validator\<close>

lemma check_params_Inr: "(check_params t ps = Inr ()) = (set ps \<subseteq> set (columns t))"
  by (induction ps) auto

lemma check_params_Inl: "(\<exists>e. check_params t ps = Inl e) = (\<not> set ps \<subseteq> set (columns t))"
  by (induction ps) auto

lemma check_params_first_missing:
  "check_params t ps =
     (case find (\<lambda>p. p \<notin> set (columns t)) ps of
        None \<Rightarrow> Inr () | Some p \<Rightarrow> Inl (MissingColumn p))"
  by (induction ps) auto

text \<open>
  Claim C4. The validator raises \<^verbatim>\<open>MissingColumn\<close> exactly when some required name is
  not a column of the table, and then names the first such parameter; it returns
  \<^verbatim>\<open>None\<close> exactly when every required name is a column, whatever other columns the
  table has. Its result is all it produces: the table is only read.
\<close>

theorem check_params_raises_iff_missing:
  "((\<exists>e. check_params t ps = Inl e) \<longleftrightarrow> \<not> set ps \<subseteq> set (columns t)) \<and>
   ((check_params t ps = Inr ()) \<longleftrightarrow> set ps \<subseteq> set (columns t)) \<and>
   check_params t ps =
     (case find (\<lambda>p. p \<notin> set (columns t)) ps of
        None \<Rightarrow> Inr () | Some p \<Rightarrow> Inl (MissingColumn p))"
  using check_params_Inr [of t ps] check_params_Inl [of t ps] check_params_first_missing [of t ps]
  by simp

theorem check_params_raises_iff_missing_witness:
  "check_params \<lparr>index_len = 1, col_list = [(''csf'', [Some (1::nat)]), (''extra'', [None]), (''white_matter'', [Some 2])]\<rparr>
     [''csf'', ''white_matter''] = Inr () \<and>
   check_params \<lparr>index_len = 1, col_list = [(''csf'', [Some (1::nat)]), (''extra'', [None])]\<rparr>
     [''csf'', ''white_matter''] = Inl (MissingColumn ''white_matter'')"
  using check_params_raises_iff_missing
          [of "\<lparr>index_len = 1, col_list = [(''csf'', [Some (1::nat)]), (''extra'', [None]), (''white_matter'', [Some 2])]\<rparr>"
              "[''csf'', ''white_matter'']"]
        check_params_raises_iff_missing
          [of "\<lparr>index_len = 1, col_list = [(''csf'', [Some (1::nat)]), (''extra'', [None])]\<rparr>" "[''csf'', ''white_matter'']"]
  by (simp add: columns_def)

section \<open>Properties of the keyword finder\<close>

lemma find_confounds_cols_filter:
  "find_confounds_cols key cols (lc, kf) =
     (lc @ filter (sublist key) cols, kf \<or> filter (sublist key) cols \<noteq> [])"
  by (induction cols arbitrary: lc kf) auto

lemma find_confounds_keys_find:
  "find_confounds_keys t ks lc =
     (case find (\<lambda>k. filter (sublist k) (columns t) = []) ks of
        Some k \<Rightarrow> Inl (NoMatchingColumn k)
      | None \<Rightarrow> Inr (lc @ concat (map (\<lambda>k. filter (sublist k) (columns t)) ks)))"
proof (induction ks arbitrary: lc)
  case Nil
  show ?case by simp
next
  case (Cons k ks)
  show ?case
    by (cases "filter (sublist k) (columns t) = []")
       (simp_all add: find_confounds_cols_filter Cons.IH split: option.splits)
qed

text \<open>
  Claim C5. The finder raises \<^verbatim>\<open>NoMatchingColumn\<close> exactly when some keyword is a
  substring of no column name (naming the first such keyword); otherwise it returns,
  keyword after keyword in input order, the column names that contain the keyword, each
  keyword's matches in the table's column order.
\<close>

theorem find_confounds_matches:
  "((\<exists>e. find_confounds t ks = Inl e) \<longleftrightarrow>
      (\<exists>k. k \<in> set ks \<and> filter (sublist k) (columns t) = [])) \<and>
   find_confounds t ks =
     (case find (\<lambda>k. filter (sublist k) (columns t) = []) ks of
        Some k \<Rightarrow> Inl (NoMatchingColumn k)
      | None \<Rightarrow> Inr (concat (map (\<lambda>k. filter (sublist k) (columns t)) ks)))"
proof -
  have eq: "find_confounds t ks =
     (case find (\<lambda>k. filter (sublist k) (columns t) = []) ks of
        Some k \<Rightarrow> Inl (NoMatchingColumn k)
      | None \<Rightarrow> Inr (concat (map (\<lambda>k. filter (sublist k) (columns t)) ks)))"
    by (simp add: find_confounds_def find_confounds_keys_find split: option.splits)
  have "(\<exists>e. find_confounds t ks = Inl e) \<longleftrightarrow>
          find (\<lambda>k. filter (sublist k) (columns t) = []) ks \<noteq> None"
    by (simp add: eq split: option.splits)
  also have "\<dots> \<longleftrightarrow> (\<exists>k. k \<in> set ks \<and> filter (sublist k) (columns t) = [])"
    by (simp add: find_None_iff)
  finally show ?thesis using eq by simp
qed

theorem find_confounds_matches_witness:
  "find_confounds
     \<lparr>index_len = 1, col_list = [(''cosine00'', [Some (1::nat)]), (''trans_x'', [Some 2]), (''a_cosine'', [Some 3]),
      (''rot_x'', [Some 4])]\<rparr> [''_x'', ''cosine''] =
     Inr [''trans_x'', ''rot_x'', ''cosine00'', ''a_cosine''] \<and>
   find_confounds
     \<lparr>index_len = 1, col_list = [(''cosine00'', [Some (1::nat)]), (''trans_x'', [Some 2])]\<rparr> [''cosine'', ''csf'', ''rot''] =
     Inl (NoMatchingColumn ''csf'')"
  using find_confounds_matches
          [of "\<lparr>index_len = 1, col_list = [(''cosine00'', [Some (1::nat)]), (''trans_x'', [Some 2]), (''a_cosine'', [Some 3]),
                (''rot_x'', [Some 4])]\<rparr>" "[''_x'', ''cosine'']"]
        find_confounds_matches
          [of "\<lparr>index_len = 1, col_list = [(''cosine00'', [Some (1::nat)]), (''trans_x'', [Some 2])]\<rparr>"
              "[''cosine'', ''csf'', ''rot'']"]
  by (simp add: columns_def sublist_code)

section \<open>Properties of the indexed component selector\<close>

lemma label_compcor_loop_filter:
  "label_compcor_loop t p ns (cs, ws) =
    (cs @ filter (\<lambda>c. c \<in> set (columns t)) (map (compcor_name p) ns),
     ws @ map MissingComponent (filter (\<lambda>c. c \<notin> set (columns t)) (map (compcor_name p) ns)))"
  by (induction ns arbitrary: cs ws) (auto simp: Let_def)

lemma candidates_a_6:
  "candidates ''a'' 6 =
     [''a_comp_cor_00'', ''a_comp_cor_01'', ''a_comp_cor_02'', ''a_comp_cor_03'',
      ''a_comp_cor_04'', ''a_comp_cor_05'', ''a_comp_cor_06'']"
  by code_simp

text \<open>
  Claim C6. The selector considers the candidates \<^verbatim>\<open>p_comp_cor_NN\<close> for
  \<^verbatim>\<open>NN = 0..N\<close>, returns those that are columns of the table in index order, and emits
  one warning for each candidate that is not, in index order; it never raises.
\<close>

theorem label_compcor_present_and_warned:
  "label_compcor t p N =
     (filter (\<lambda>c. c \<in> set (columns t)) (candidates p N),
      map MissingComponent (filter (\<lambda>c. c \<notin> set (columns t)) (candidates p N)))"
  by (simp add: label_compcor_def py_range_def candidates_def label_compcor_loop_filter)

text \<open>
  The example of the claim: with \<^verbatim>\<open>N = 6\<close> and only the indices 0 to 3 in the table,
  four columns are returned and three warnings are emitted.
\<close>

theorem label_compcor_present_and_warned_witness:
  "label_compcor
     \<lparr>index_len = 1, col_list = [(''a_comp_cor_00'', [Some (1::nat)]), (''a_comp_cor_01'', [Some 2]), (''csf'', [Some 3]),
      (''a_comp_cor_02'', [Some 4]), (''a_comp_cor_03'', [Some 5])]\<rparr> ''a'' 6 =
     ([''a_comp_cor_00'', ''a_comp_cor_01'', ''a_comp_cor_02'', ''a_comp_cor_03''],
      [MissingComponent ''a_comp_cor_04'', MissingComponent ''a_comp_cor_05'',
       MissingComponent ''a_comp_cor_06''])"
  using label_compcor_present_and_warned
    [of "\<lparr>index_len = 1, col_list = [(''a_comp_cor_00'', [Some (1::nat)]), (''a_comp_cor_01'', [Some 2]), (''csf'', [Some 3]),
      (''a_comp_cor_02'', [Some 4]), (''a_comp_cor_03'', [Some 5])]\<rparr>" "''a''" 6]
  by (simp add: candidates_a_6 columns_def)

section \<open>Properties of the constructor\<close>

lemma sanitize_strategy_loop_Inr:
  "(sanitize_strategy_loop xs = Inr ()) = (set xs \<subseteq> set (map PyStr all_confounds))"
  by (induction xs) (simp_all add: in_all_confounds_def)

lemma sanitize_strategy_loop_find:
  "sanitize_strategy_loop xs =
     (case find (\<lambda>conf. \<not> in_all_confounds conf) xs of
        None \<Rightarrow> Inr () | Some conf \<Rightarrow> Inl (InvalidStrategy_unsupported conf))"
  by (induction xs) simp_all

lemma sanitize_strategy_PyList:
  "sanitize_strategy (PyList xs) =
     (case find (\<lambda>conf. \<not> in_all_confounds conf) xs of
        None \<Rightarrow> Inr xs | Some conf \<Rightarrow> Inl (InvalidStrategy_unsupported conf))"
  by (simp add: sanitize_strategy_loop_find bind_err_def split: option.splits)

lemma find_not_in_None:
  "(find (\<lambda>conf. \<not> in_all_confounds conf) xs = None) = (set xs \<subseteq> set (map PyStr all_confounds))"
  by (induction xs) (simp_all add: in_all_confounds_def)


lemma init_PyList:
  "init (PyList xs) m n w g c k =
     (case find (\<lambda>conf. \<not> in_all_confounds conf) xs of
        None \<Rightarrow> Inr \<lparr>strategy = xs, motion = m, n_motion = n, wm_csf = w, global_signal = g,
                      compcor = c, n_compcor = k, confounds_ = None\<rparr>
      | Some conf \<Rightarrow> Inl (InvalidStrategy_unsupported conf))"
  unfolding init_def sanitize_strategy_PyList
  by (simp add: bind_err_def split: option.splits)

lemma init_not_list:
  "\<not> (\<exists>xs. s = PyList xs) \<Longrightarrow> init s m n w g c k = Inl InvalidStrategy_not_list"
  by (cases s) (simp_all add: init_def bind_err_def)

lemma init_Inl_iff:
  "(\<exists>e. (init s m n w g c k :: error + 'a confounds) = Inl e) \<longleftrightarrow>
      \<not> (\<exists>xs. s = PyList xs \<and> set xs \<subseteq> set (map PyStr all_confounds))"
proof (cases "\<exists>xs. s = PyList xs")
  case True
  then obtain xs where s: "s = PyList xs" by blast
  show ?thesis
    unfolding s init_PyList
    using find_not_in_None [of xs]
    by (cases "find (\<lambda>conf. \<not> in_all_confounds conf) xs") simp_all
next
  case False
  then have "(init s m n w g c k :: error + 'a confounds) = Inl InvalidStrategy_not_list"
    by (rule init_not_list)
  with False show ?thesis by simp
qed

lemma init_Inl_kind:
  "(\<exists>e. (init s m n w g c k :: error + 'a confounds) = Inl e) \<longleftrightarrow>
      (init s m n w g c k :: error + 'a confounds) = Inl InvalidStrategy_not_list \<or>
      (\<exists>conf. (init s m n w g c k :: error + 'a confounds) = Inl (InvalidStrategy_unsupported conf))"
proof (cases "\<exists>xs. s = PyList xs")
  case True
  then obtain xs where s: "s = PyList xs" by blast
  show ?thesis
    unfolding s init_PyList
    by (cases "find (\<lambda>conf. \<not> in_all_confounds conf) xs") simp_all
next
  case False
  then have "(init s m n w g c k :: error + 'a confounds) = Inl InvalidStrategy_not_list"
    by (rule init_not_list)
  then show ?thesis by simp
qed

text \<open>
  Claim C1, as amended. The constructor takes the strategy and the category settings
  only, so it finishes before any table exists. It raises exactly when the strategy is
  not a list or has a member outside the vocabulary, and then with one of the two
  strategy errors; the empty list is accepted.
\<close>

theorem init_raises_iff:
  "((\<exists>e. (init s m n w g c k :: error + 'a confounds) = Inl e) \<longleftrightarrow>
      \<not> (\<exists>xs. s = PyList xs \<and> set xs \<subseteq> set (map PyStr all_confounds))) \<and>
   ((\<exists>e. (init s m n w g c k :: error + 'a confounds) = Inl e) \<longleftrightarrow>
      (init s m n w g c k :: error + 'a confounds) = Inl InvalidStrategy_not_list \<or>
      (\<exists>conf. (init s m n w g c k :: error + 'a confounds) = Inl (InvalidStrategy_unsupported conf))) \<and>
   (init (PyList []) m n w g c k :: error + 'a confounds) =
      Inr \<lparr>strategy = [], motion = m, n_motion = n, wm_csf = w, global_signal = g,
           compcor = c, n_compcor = k, confounds_ = None\<rparr>"
proof (intro conjI)
  show "(init (PyList []) m n w g c k :: error + 'a confounds) =
      Inr \<lparr>strategy = [], motion = m, n_motion = n, wm_csf = w, global_signal = g,
           compcor = c, n_compcor = k, confounds_ = None\<rparr>"
    by (simp add: init_PyList)
qed (rule init_Inl_iff, rule init_Inl_kind)

text \<open>
  Claim C1 as stated fails on the empty list: the constructor returns an object whose
  strategy is empty.
\<close>

theorem init_accepts_empty_list:
  "(init (PyList []) ''full'' 0 ''basic'' ''basic'' ''anat'' 6 :: error + nat confounds) =
     Inr \<lparr>strategy = [], motion = ''full'', n_motion = 0, wm_csf = ''basic'',
          global_signal = ''basic'', compcor = ''anat'', n_compcor = 6, confounds_ = None\<rparr>"
  by (simp add: init_PyList)


theorem init_raises_iff_witness:
  "(\<exists>e. (init (PyList [PyStr ''motion'', PyStr ''bogus'']) ''full'' 0 ''basic'' ''basic'' ''anat'' 6
      :: error + nat confounds) = Inl e) \<and>
   (\<exists>e. (init (PyStr ''motion'') ''full'' 0 ''basic'' ''basic'' ''anat'' 6
      :: error + nat confounds) = Inl e) \<and>
   \<not> (\<exists>e. (init (PyList [PyStr ''compcor'', PyStr ''motion'']) ''full'' 0 ''basic'' ''basic'' ''anat'' 6
      :: error + nat confounds) = Inl e)"
proof -
  have a: "\<not> set [PyStr ''motion'', PyStr ''bogus''] \<subseteq> set (map PyStr all_confounds)"
    by (simp add: all_confounds_def)
  have b: "set [PyStr ''compcor'', PyStr ''motion''] \<subseteq> set (map PyStr all_confounds)"
    by (simp add: all_confounds_def)
  show ?thesis
    using a b
      init_raises_iff [where ?'a = nat, of "PyList [PyStr ''motion'', PyStr ''bogus'']"
        "''full''" 0 "''basic''" "''basic''" "''anat''" 6]
      init_raises_iff [where ?'a = nat, of "PyStr ''motion''"
        "''full''" 0 "''basic''" "''basic''" "''anat''" 6]
      init_raises_iff [where ?'a = nat, of "PyList [PyStr ''compcor'', PyStr ''motion'']"
        "''full''" 0 "''basic''" "''basic''" "''anat''" 6]
    by simp
qed

section \<open>Properties of the orchestrator\<close>














lemma active_strategy_update:
  "active (cfg\<lparr>strategy := s\<rparr>) category = (PyStr category \<in> set s)"
  by (simp add: active_def)


lemma load_single_example:
  "load_single example_externals example_config (DataFrame example_table) =
     ([], Inr example_result)"
  by code_simp



section \<open>Properties of the load operation\<close>

lemma load_loop_success:
  assumes "list_all (\<lambda>x. \<not> isl (snd (load_single env self x))) xs"
  shows "load_loop env self xs (outs, ws) =
           (ws @ concat (map (\<lambda>x. fst (load_single env self x)) xs),
            Inr (outs @ map (\<lambda>x. projr (snd (load_single env self x))) xs))"
  using assms
proof (induction xs arbitrary: outs ws)
  case Nil
  show ?case by simp
next
  case (Cons x xs)
  obtain w r where wr: "load_single env self x = (w, r)" by (cases "load_single env self x")
  from Cons.prems have "\<not> isl r" by (simp add: wr)
  then obtain out where r: "r = Inr out" by (cases r) simp_all
  from Cons.prems have rest: "list_all (\<lambda>x. \<not> isl (snd (load_single env self x))) xs"
    by simp
  show ?case
    by (simp add: wr r Cons.IH [OF rest])
qed

lemma load_loop_failure:
  assumes "\<not> list_all (\<lambda>x. \<not> isl (snd (load_single env self x))) xs"
  shows "\<exists>w e. load_loop env self xs (outs, ws) = (w, Inl e)"
  using assms
proof (induction xs arbitrary: outs ws)
  case Nil
  then show ?case by simp
next
  case (Cons x xs)
  obtain w r where wr: "load_single env self x = (w, r)" by (cases "load_single env self x")
  show ?case
  proof (cases r)
    case (Inl e)
    then show ?thesis by (simp add: wr)
  next
    case (Inr out)
    with Cons.prems have "\<not> list_all (\<lambda>x. \<not> isl (snd (load_single env self x))) xs"
      by (simp add: wr)
    from Cons.IH [OF this] show ?thesis by (simp add: wr Inr)
  qed
qed

lemma load_Single:
  "load env self (Single x) =
     (case load_single env self x of
        (w, Inl e) \<Rightarrow> (w, Inl e)
      | (w, Inr out) \<Rightarrow>
          (w, Inr (OneTable out, self\<lparr>confounds_ := Some (OneTable out)\<rparr>)))"
  by (simp add: load_def sanitize_confounds_def bind_err_def split: prod.splits sum.splits)

lemma load_Many_success:
  assumes "list_all (\<lambda>x. \<not> isl (snd (load_single env self x))) xs"
  shows "load env self (Many xs) =
     (concat (map (\<lambda>x. fst (load_single env self x)) xs),
      Inr (TableList (map (\<lambda>x. projr (snd (load_single env self x))) xs),
           self\<lparr>confounds_ :=
             Some (TableList (map (\<lambda>x. projr (snd (load_single env self x))) xs))\<rparr>))"
  by (simp add: load_def sanitize_confounds_def bind_err_def load_loop_success [OF assms])

lemma load_Many_failure:
  assumes "\<not> list_all (\<lambda>x. \<not> isl (snd (load_single env self x))) xs"
  shows "\<exists>w e. load env self (Many xs) = (w, Inl e)"
proof -
  from load_loop_failure [OF assms, of "[]" "[]"] obtain w e where
    "load_loop env self xs ([], []) = (w, Inl e)" by (elim exE)
  then show ?thesis
    by (simp add: load_def sanitize_confounds_def)
qed

text \<open>
  Claim C7. For a single table or path, \<^verbatim>\<open>load\<close> returns the table that
  \<^verbatim>\<open>_load_single\<close> returns for it, not wrapped in a list; for a list of inputs it
  returns the list of their tables, one per input and in input order. In both cases the
  returned value is also stored in \<^verbatim>\<open>confounds_\<close>. \<^verbatim>\<open>load\<close> returns in this way
  exactly when \<^verbatim>\<open>_load_single\<close> succeeds on every input; otherwise it raises.
\<close>

theorem load_single_or_list:
  "load env self (Single x) =
     (case load_single env self x of
        (w, Inl e) \<Rightarrow> (w, Inl e)
      | (w, Inr out) \<Rightarrow>
          (w, Inr (OneTable out, self\<lparr>confounds_ := Some (OneTable out)\<rparr>))) \<and>
   (list_all (\<lambda>x. \<not> isl (snd (load_single env self x))) xs \<longrightarrow>
      (\<exists>outs. load env self (Many xs) =
                 (concat (map (\<lambda>x. fst (load_single env self x)) xs),
                  Inr (TableList outs, self\<lparr>confounds_ := Some (TableList outs)\<rparr>)) \<and>
              length outs = length xs \<and>
              outs = map (\<lambda>x. projr (snd (load_single env self x))) xs)) \<and>
   (\<not> list_all (\<lambda>x. \<not> isl (snd (load_single env self x))) xs \<longrightarrow>
      (\<exists>w e. load env self (Many xs) = (w, Inl e)))"
proof (intro conjI impI)
  show "load env self (Single x) =
     (case load_single env self x of
        (w, Inl e) \<Rightarrow> (w, Inl e)
      | (w, Inr out) \<Rightarrow>
          (w, Inr (OneTable out, self\<lparr>confounds_ := Some (OneTable out)\<rparr>)))"
    by (rule load_Single)
next
  assume a: "list_all (\<lambda>x. \<not> isl (snd (load_single env self x))) xs"
  show "\<exists>outs. load env self (Many xs) =
                 (concat (map (\<lambda>x. fst (load_single env self x)) xs),
                  Inr (TableList outs, self\<lparr>confounds_ := Some (TableList outs)\<rparr>)) \<and>
              length outs = length xs \<and>
              outs = map (\<lambda>x. projr (snd (load_single env self x))) xs"
    by (rule exI [of _ "map (\<lambda>x. projr (snd (load_single env self x))) xs"])
       (simp add: load_Many_success [OF a])
next
  assume "\<not> list_all (\<lambda>x. \<not> isl (snd (load_single env self x))) xs"
  then show "\<exists>w e. load env self (Many xs) = (w, Inl e)"
    by (rule load_Many_failure)
qed

lemma load_single_example2:
  "load_single example_externals example_config (DataFrame example_table2) =
     ([], Inr \<lparr>index_len = 1,
               col_list =
                 [(''trans_x'', [Some 6]), (''trans_y'', [Some 5]), (''trans_z'', [Some 4]),
                  (''rot_x'', [Some 3]), (''rot_y'', [Some 2]), (''rot_z'', [Some 1]),
                  (''cosine00'', [Some 7])]\<rparr>)"
  by code_simp

lemma load_single_example_path:
  "load_single example_externals example_config (Path ''sub-01_desc-confounds_regressors.tsv'') =
     ([], Inl (ExternalError ''read_csv''))"
  by code_simp


theorem load_single_or_list_witness:
  "list_all (\<lambda>x. \<not> isl (snd (load_single example_externals example_config x)))
     [DataFrame example_table2, DataFrame example_table] \<and>
   (\<exists>out1 out2.
      load example_externals example_config
        (Many [DataFrame example_table2, DataFrame example_table]) =
        ([], Inr (TableList [out1, out2],
                  example_config\<lparr>confounds_ := Some (TableList [out1, out2])\<rparr>)) \<and>
      snd (load_single example_externals example_config (DataFrame example_table2)) = Inr out1 \<and>
      snd (load_single example_externals example_config (DataFrame example_table)) = Inr out2 \<and>
      columns out1 \<noteq> columns out2) \<and>
   (\<exists>out.
      load example_externals example_config (Single (DataFrame example_table)) =
        ([], Inr (OneTable out, example_config\<lparr>confounds_ := Some (OneTable out)\<rparr>))) \<and>
   load example_externals example_config
     (Single (Path ''sub-01_desc-confounds_regressors.tsv'')) =
     ([], Inl (ExternalError ''read_csv''))"
  using load_single_or_list
          [of example_externals example_config "DataFrame example_table"
              "[DataFrame example_table2, DataFrame example_table]"]
        load_single_or_list
          [of example_externals example_config "Path ''sub-01_desc-confounds_regressors.tsv''" "[]"]
  by (simp add: load_single_example load_single_example2 load_single_example_path columns_def
        example_result_def)

section \<open>An unsupported compcor variant\<close>

lemma load_compcor_unbound:
  assumes "c \<notin> {''anat'', ''temp'', ''full''}"
  shows "load_compcor raw c k = ([], Inl (UnboundLocalError ''compcor_cols''))"
proof -
  from assms have "c \<noteq> ''anat''" "c \<noteq> ''temp''" "c \<noteq> ''full''" by simp_all
  then show ?thesis by (simp add: load_compcor_def)
qed

lemma load_single_unbound:
  assumes bad: "compcor cfg \<notin> {''anat'', ''temp'', ''full''}"
    and act: "active cfg ''compcor''"
  shows "load_single env cfg inp =
     ([], Inl (case confounds2df env inp of
                 Inl e \<Rightarrow> e
               | Inr raw \<Rightarrow>
                   (case load_single_before_compcor env cfg raw of
                      Inl e \<Rightarrow> e
                    | Inr t \<Rightarrow> UnboundLocalError ''compcor_cols'')))"
  by (simp add: load_single_def act load_compcor_unbound [OF bad] category_step_def bind_err_def
        split: sum.splits)

lemma load_Single_Inl:
  assumes "load_single env cfg inp = (w, Inl e)"
  shows "load env cfg (Single inp) = (w, Inl e)"
  by (simp add: load_def sanitize_confounds_def assms)

lemma load_Many_Cons_Inl:
  assumes "load_single env cfg inp = (w, Inl e)"
  shows "load env cfg (Many (inp # rest)) = (w, Inl e)"
  by (simp add: load_def sanitize_confounds_def assms)

lemma init_Inr_iff:
  "(\<exists>cfg. (init (PyList xs) m n w g c k :: error + 'a confounds) = Inr cfg) \<longleftrightarrow>
     set xs \<subseteq> set (map PyStr all_confounds)"
  unfolding init_PyList
  using find_not_in_None [of xs]
  by (cases "find (\<lambda>conf. \<not> in_all_confounds conf) xs") simp_all

text \<open>
  Claim C10, as amended. The constructor checks the strategy only, so any strings are
  accepted for the compcor variant and the expansion modes. For a variant outside
  \<^verbatim>\<open>anat\<close>, \<^verbatim>\<open>temp\<close>, \<^verbatim>\<open>full\<close> the compcor loader always fails with the unbound-local
  error, and a load of one input, or of a non-empty list of inputs, with \<^verbatim>\<open>compcor\<close> in
  the strategy always fails, a list at its first input: with the unbound-local error
  when the table of that input is obtained and the blocks for motion, high_pass, wm_csf
  and global succeed on it, and with the error of the earlier step otherwise.
\<close>

theorem load_invalid_compcor:
  "((\<exists>cfg. (init (PyList xs) m n w g c k :: error + 'a confounds) = Inr cfg) \<longleftrightarrow>
      set xs \<subseteq> set (map PyStr all_confounds)) \<and>
   (c \<notin> {''anat'', ''temp'', ''full''} \<longrightarrow>
      load_compcor raw c k = ([], Inl (UnboundLocalError ''compcor_cols''))) \<and>
   (compcor cfg \<notin> {''anat'', ''temp'', ''full''} \<and> active cfg ''compcor'' \<longrightarrow>
      load_single env cfg inp =
        ([], Inl (case confounds2df env inp of
                    Inl e \<Rightarrow> e
                  | Inr raw' \<Rightarrow>
                      (case load_single_before_compcor env cfg raw' of
                         Inl e \<Rightarrow> e
                       | Inr t \<Rightarrow> UnboundLocalError ''compcor_cols''))) \<and>
      load env cfg (Single inp) =
        ([], Inl (case confounds2df env inp of
                    Inl e \<Rightarrow> e
                  | Inr raw' \<Rightarrow>
                      (case load_single_before_compcor env cfg raw' of
                         Inl e \<Rightarrow> e
                       | Inr t \<Rightarrow> UnboundLocalError ''compcor_cols''))) \<and>
      load env cfg (Many (inp # rest)) =
        ([], Inl (case confounds2df env inp of
                    Inl e \<Rightarrow> e
                  | Inr raw' \<Rightarrow>
                      (case load_single_before_compcor env cfg raw' of
                         Inl e \<Rightarrow> e
                       | Inr t \<Rightarrow> UnboundLocalError ''compcor_cols''))))"
proof (intro conjI impI)
  show "(\<exists>cfg. (init (PyList xs) m n w g c k :: error + 'a confounds) = Inr cfg) \<longleftrightarrow>
      set xs \<subseteq> set (map PyStr all_confounds)"
    by (rule init_Inr_iff)
next
  assume "c \<notin> {''anat'', ''temp'', ''full''}"
  then show "load_compcor raw c k = ([], Inl (UnboundLocalError ''compcor_cols''))"
    by (rule load_compcor_unbound)
next
  assume a: "compcor cfg \<notin> {''anat'', ''temp'', ''full''} \<and> active cfg ''compcor''"
  show "load_single env cfg inp =
        ([], Inl (case confounds2df env inp of
                    Inl e \<Rightarrow> e
                  | Inr raw' \<Rightarrow>
                      (case load_single_before_compcor env cfg raw' of
                         Inl e \<Rightarrow> e
                       | Inr t \<Rightarrow> UnboundLocalError ''compcor_cols'')))"
    by (rule load_single_unbound [OF a [THEN conjunct1] a [THEN conjunct2]])
next
  assume a: "compcor cfg \<notin> {''anat'', ''temp'', ''full''} \<and> active cfg ''compcor''"
  show "load env cfg (Single inp) =
        ([], Inl (case confounds2df env inp of
                    Inl e \<Rightarrow> e
                  | Inr raw' \<Rightarrow>
                      (case load_single_before_compcor env cfg raw' of
                         Inl e \<Rightarrow> e
                       | Inr t \<Rightarrow> UnboundLocalError ''compcor_cols'')))"
    by (rule load_Single_Inl [OF load_single_unbound [OF a [THEN conjunct1] a [THEN conjunct2]]])
next
  assume a: "compcor cfg \<notin> {''anat'', ''temp'', ''full''} \<and> active cfg ''compcor''"
  show "load env cfg (Many (inp # rest)) =
        ([], Inl (case confounds2df env inp of
                    Inl e \<Rightarrow> e
                  | Inr raw' \<Rightarrow>
                      (case load_single_before_compcor env cfg raw' of
                         Inl e \<Rightarrow> e
                       | Inr t \<Rightarrow> UnboundLocalError ''compcor_cols'')))"
    by (rule load_Many_Cons_Inl
              [OF load_single_unbound [OF a [THEN conjunct1] a [THEN conjunct2]]])
qed

text \<open>
  Claim C10 as stated fails: with \<^verbatim>\<open>motion\<close> also in the strategy and a table without
  the motion columns, the load fails with \<^verbatim>\<open>MissingColumn\<close> before the compcor block is
  reached; and a load of an empty list of inputs returns the empty list.
\<close>

theorem load_invalid_compcor_missing_column_first:
  "(init (PyList [PyStr ''motion'', PyStr ''compcor'']) ''basic'' 0 ''basic'' ''basic'' ''bogus'' 6
      :: error + nat confounds) = Inr example_config_bogus \<and>
   active example_config_bogus ''compcor'' \<and>
   compcor example_config_bogus \<notin> {''anat'', ''temp'', ''full''} \<and>
   load example_externals example_config_bogus (Single (DataFrame \<lparr>index_len = 1, col_list = [(''cosine00'', [Some 1])]\<rparr>)) =
     ([], Inl (MissingColumn ''trans_x'')) \<and>
   load example_externals example_config_bogus (Many []) =
     ([], Inr (TableList [], example_config_bogus\<lparr>confounds_ := Some (TableList [])\<rparr>))"
proof -
  have "(init (PyList [PyStr ''motion'', PyStr ''compcor'']) ''basic'' 0 ''basic'' ''basic'' ''bogus'' 6
      :: error + nat confounds) = Inr example_config_bogus"
    by (simp add: init_PyList in_all_confounds_def all_confounds_def example_config_bogus_def)
  moreover have "active example_config_bogus ''compcor''"
    by (simp add: active_def example_config_bogus_def)
  moreover have "compcor example_config_bogus \<notin> {''anat'', ''temp'', ''full''}"
    by (simp add: example_config_bogus_def)
  moreover have
    "load example_externals example_config_bogus (Single (DataFrame \<lparr>index_len = 1, col_list = [(''cosine00'', [Some 1])]\<rparr>)) =
     ([], Inl (MissingColumn ''trans_x''))"
    by code_simp
  moreover have "load example_externals example_config_bogus (Many []) =
     ([], Inr (TableList [], example_config_bogus\<lparr>confounds_ := Some (TableList [])\<rparr>))"
    by (simp add: load_def sanitize_confounds_def bind_err_def)
  ultimately show ?thesis by (intro conjI)
qed

lemma before_compcor_example_bogus:
  "load_single_before_compcor example_externals example_config_bogus example_table =
     Inr example_motion"
  by code_simp

theorem load_invalid_compcor_witness:
  "''bogus'' \<notin> {''anat'', ''temp'', ''full''} \<and>
   load_compcor example_table ''bogus'' 6 = ([], Inl (UnboundLocalError ''compcor_cols'')) \<and>
   compcor example_config_bogus \<notin> {''anat'', ''temp'', ''full''} \<and>
   active example_config_bogus ''compcor'' \<and>
   load example_externals example_config_bogus (Single (DataFrame example_table)) =
     ([], Inl (UnboundLocalError ''compcor_cols'')) \<and>
   load example_externals example_config_bogus
     (Many [DataFrame example_table, DataFrame example_table2]) =
     ([], Inl (UnboundLocalError ''compcor_cols''))"
proof -
  have a: "compcor example_config_bogus \<notin> {''anat'', ''temp'', ''full''}"
    by (simp add: example_config_bogus_def)
  have b: "active example_config_bogus ''compcor''"
    by (simp add: active_def example_config_bogus_def)
  have c: "''bogus'' \<notin> {''anat'', ''temp'', ''full''}" by simp
  have d: "confounds2df example_externals (DataFrame example_table) = Inr example_table"
    by (simp add: confounds2df_def)
  show ?thesis
    using load_invalid_compcor
            [where ?'a = nat, of "[]" "''full''" 0 "''basic''" "''basic''" "''bogus''" 6
               example_table example_config_bogus example_externals "DataFrame example_table"
               "[DataFrame example_table2]"]
          a b c
    by (simp add: d before_compcor_example_bogus)
qed

section \<open>Properties of the motion loader\<close>
















end
